theory Spec2Isabelle
  imports Main "HOL-Library.Word"
begin

section \<open>The announce Receiver of go-libipni\<close>

text \<open>
  A shallow embedding of the \<^verbatim>\<open>announce\<close> package's Receiver (the Go file that declares
  \<^verbatim>\<open>type Receiver struct\<close>): construction, \<^verbatim>\<open>Next\<close>, \<^verbatim>\<open>Close\<close>, \<^verbatim>\<open>UncacheCid\<close>, the
  pubsub watcher, \<^verbatim>\<open>Direct\<close>, \<^verbatim>\<open>handleAnnounce\<close>, \<^verbatim>\<open>announceCheck\<close> and \<^verbatim>\<open>republish\<close>.

  One call is run against a receiver state at rest. A call that cannot proceed in that
  state (a \<^verbatim>\<open>Lock\<close> on a held mutex, a \<^verbatim>\<open>select\<close> with no ready case, a receive on a nil
  channel) has the outcome \<open>Blocked\<close>; a nil dereference or the close of a closed channel
  has the outcome \<open>Panicked\<close>. A \<^verbatim>\<open>select\<close> with several ready cases may take any of them,
  so \<open>handleAnnounce\<close>, \<open>Direct\<close>, \<open>Next\<close> and \<open>watch\<close> return the list of their possible
  outcomes.
\<close>

subsection \<open>Data\<close>

text \<open>Go's \<^verbatim>\<open>[]byte\<close> and \<^verbatim>\<open>string\<close> are byte sequences; \<^verbatim>\<open>peer.ID\<close> is declared as a
  \<^verbatim>\<open>string\<close>. A \<^verbatim>\<open>cid.Cid\<close> is represented by its canonical string form, so
  \<open>Cid_String\<close> is the identity.\<close>

type_synonym bytes = string
type_synonym peer_ID = string
type_synonym Cid_t = string

definition Cid_String :: "Cid_t \<Rightarrow> string" where
  "Cid_String c = c"

datatype error =
    ErrClosed
  | errSourceNotAllowed
  | errAlreadySeenCid
  | Canceled
  | DeadlineExceeded
  | ErrSubscriptionCancelled
  | Wrapped string error
  | OtherError string

text \<open>\<^verbatim>\<open>errors.Is\<close>: the target is looked for along the chain of wrapped errors.\<close>

fun errors_Is :: "error \<Rightarrow> error \<Rightarrow> bool" where
  "errors_Is (Wrapped s e) target = (Wrapped s e = target \<or> errors_Is e target)"
| "errors_Is e target = (e = target)"

text \<open>A \<^verbatim>\<open>context.Context\<close> as the callee sees it: \<open>None\<close> while the context is live
  (\<^verbatim>\<open>ctx.Err()\<close> is nil, \<^verbatim>\<open>ctx.Done()\<close> is not ready), \<open>Some e\<close> once it is done with
  error \<open>e\<close>.\<close>

type_synonym ctx = "error option"

text \<open>A multiaddress is a sequence of components; a nil \<^verbatim>\<open>multiaddr.Multiaddr\<close> is
  \<open>None\<close>. An IPv4 address is its four octets, an IPv6 address its sixteen; \<open>DNS\<close>
  stands for the components \<^verbatim>\<open>dns\<close>, \<^verbatim>\<open>dns4\<close>, \<^verbatim>\<open>dns6\<close> and \<^verbatim>\<open>dnsaddr\<close>.\<close>

datatype component =
    IP4 "8 word" "8 word" "8 word" "8 word"
  | IP6 "8 word list"
  | DNS string
  | TCP nat
  | UDP nat
  | HTTP

type_synonym Multiaddr = "component list option"

record Announce =
  Cid :: Cid_t
  PeerID :: peer_ID
  Addrs :: "Multiaddr list"

text \<open>\<^verbatim>\<open>message.Message\<close>, the decoded gossip message, and \<^verbatim>\<open>pubsub.Message\<close>, the
  transport's envelope, with the fields the receiver reads.\<close>

record Message =
  msg_Cid :: Cid_t
  msg_Addrs :: "bytes list"
  OrigPeer :: string

record pubsub_Message =
  From :: bytes
  Data :: bytes

record Topic =
  topic_name :: string
  topic_closed :: bool

record Subscription =
  sub_topic :: string
  sub_cancelled :: bool

record Sender =
  sender_topic :: string
  sender_closed :: bool

datatype level = LDebug | LInfo | LError

type_synonym log_entry = "level \<times> string"

subsection \<open>The bounded LRU set\<close>

text \<open>Modelled from the spec: the type \<^verbatim>\<open>stringLRU\<close> with \<^verbatim>\<open>newStringLRU\<close>, \<^verbatim>\<open>update\<close> and
  \<^verbatim>\<open>remove\<close> is declared in a file of the package that is not among the sources. The spec:
  a bounded set of strings with LRU recency; \<^verbatim>\<open>update(key)\<close> returns true if the key was
  already present and promotes it to most-recently-used, otherwise inserts it, evicting
  the least-recently-used key if at capacity, and returns false; \<^verbatim>\<open>remove(key)\<close>
  deletes unconditionally. The keys are kept most-recently-used first.\<close>

record stringLRU =
  lru_cap :: nat
  lru_keys :: "string list"

definition newStringLRU :: "nat \<Rightarrow> stringLRU" where
  "newStringLRU n = \<lparr>lru_cap = n, lru_keys = []\<rparr>"

definition stringLRU_update :: "stringLRU \<Rightarrow> string \<Rightarrow> bool \<times> stringLRU" where
  "stringLRU_update c k =
     (if k \<in> set (lru_keys c)
      then (True, c\<lparr>lru_keys := k # removeAll k (lru_keys c)\<rparr>)
      else (False,
            c\<lparr>lru_keys :=
                 k # (if lru_cap c \<le> length (lru_keys c) then butlast (lru_keys c)
                      else lru_keys c)\<rparr>))"

definition stringLRU_remove :: "stringLRU \<Rightarrow> string \<Rightarrow> stringLRU" where
  "stringLRU_remove c k = c\<lparr>lru_keys := removeAll k (lru_keys c)\<rparr>"

definition announceCacheSize :: nat where
  "announceCacheSize = 64"

subsection \<open>The public-address filter\<close>

text \<open>Modelled from the spec: \<^verbatim>\<open>mautil.FilterPublic\<close> is a function of this repository
  whose file is not among the sources (only its test is). The spec: loopback, link-local
  and private IPv4/IPv6 ranges are removed; nil entries pass through; a nil input
  returns nil; what is returned has a globally routable first IP component. The class
  of an address is that of its first IP component. The test among the sources also
  expects the unspecified addresses \<^verbatim>\<open>0.0.0.0\<close> and \<^verbatim>\<open>::\<close> and the DNS name
  \<^verbatim>\<open>localhost\<close> to be removed, and any other DNS name to be kept: they are classed
  accordingly.\<close>

fun ip_loopback :: "component \<Rightarrow> bool" where
  "ip_loopback (IP4 a b c d) = (a = 127)"
| "ip_loopback (IP6 bs) =
     (length bs = 16 \<and> list_all (\<lambda>b. b = 0) (butlast bs) \<and> last bs = 1)"
| "ip_loopback _ = False"

fun ip_link_local :: "component \<Rightarrow> bool" where
  "ip_link_local (IP4 a b c d) = (a = 169 \<and> b = 254)"
| "ip_link_local (IP6 bs) =
     (case bs of b0 # b1 # _ \<Rightarrow> b0 = 0xfe \<and> 0x80 \<le> b1 \<and> b1 \<le> 0xbf | _ \<Rightarrow> False)"
| "ip_link_local _ = False"

fun ip_private :: "component \<Rightarrow> bool" where
  "ip_private (IP4 a b c d) =
     (a = 10 \<or> (a = 172 \<and> 16 \<le> b \<and> b \<le> 31) \<or> (a = 192 \<and> b = 168))"
| "ip_private (IP6 bs) = (case bs of b0 # _ \<Rightarrow> b0 = 0xfc \<or> b0 = 0xfd | _ \<Rightarrow> False)"
| "ip_private _ = False"

fun ip_unspecified :: "component \<Rightarrow> bool" where
  "ip_unspecified (IP4 a b c d) = (a = 0 \<and> b = 0 \<and> c = 0 \<and> d = 0)"
| "ip_unspecified (IP6 bs) = (length bs = 16 \<and> list_all (\<lambda>b. b = 0) bs)"
| "ip_unspecified _ = False"

fun is_ip :: "component \<Rightarrow> bool" where
  "is_ip (IP4 a b c d) = True"
| "is_ip (IP6 bs) = True"
| "is_ip _ = False"

definition first_ip :: "component list \<Rightarrow> component option" where
  "first_ip m = (case filter is_ip m of [] \<Rightarrow> None | c # _ \<Rightarrow> Some c)"

fun dns_localhost :: "component list \<Rightarrow> bool" where
  "dns_localhost (DNS n # _) = (n = ''localhost'')"
| "dns_localhost _ = False"

definition non_public :: "Multiaddr \<Rightarrow> bool" where
  "non_public a =
     (case a of
        None \<Rightarrow> False
      | Some m \<Rightarrow>
          (case first_ip m of
             None \<Rightarrow> dns_localhost m
           | Some c \<Rightarrow>
               ip_loopback c \<or> ip_link_local c \<or> ip_private c \<or> ip_unspecified c))"

definition FilterPublic :: "Multiaddr list \<Rightarrow> Multiaddr list" where
  "FilterPublic maddrs = filter (\<lambda>a. \<not> non_public a) maddrs"

subsection \<open>The receiver and its collaborators\<close>

text \<open>The struct \<^verbatim>\<open>Receiver\<close>. \<open>announceMutex\<close> is \<open>True\<close> while the mutex is held. A
  \<^verbatim>\<open>context.CancelFunc\<close> is \<open>None\<close> when nil, otherwise \<open>Some b\<close> with \<open>b\<close> telling
  whether it has been called. A \<^verbatim>\<open>chan struct{}\<close> that is only ever closed is \<open>True\<close> once
  closed (\<open>watchDone\<close> may be nil: \<open>None\<close>). \<open>outChan\<close> holds the buffered announcements of
  the channel of capacity 1, oldest first. \<open>logged\<close> is the output of the package's
  logger, which the Go code keeps in the global \<^verbatim>\<open>log\<close>.\<close>

record Receiver =
  allowPeer :: "(peer_ID \<Rightarrow> bool) option"
  filterIPs :: bool
  resend :: bool
  hostID :: peer_ID
  announceCache :: stringLRU
  announceMutex :: bool
  closed :: bool
  cancelWatch :: "bool option"
  watchDone :: "bool option"
  doneCh :: bool
  cancelPubsub :: "bool option"
  sender :: "Sender option"
  topic :: "Topic option"
  topicSub :: "Subscription option"
  outChan :: "Announce list"
  logged :: "log_entry list"

text \<open>The results of the calls into the collaborators that are outside the sources:
  the gossip transport (\<^verbatim>\<open>gossiptopic.MakeTopic\<close>, \<^verbatim>\<open>Topic.Subscribe\<close>, \<^verbatim>\<open>Topic.Close\<close>),
  the sender (\<^verbatim>\<open>p2psender.New\<close>, \<^verbatim>\<open>Send\<close>, \<^verbatim>\<open>Close\<close>), and the codecs
  (\<^verbatim>\<open>peer.IDFromBytes\<close>, \<^verbatim>\<open>peer.Decode\<close>, \<^verbatim>\<open>peer.ID.String\<close>, \<^verbatim>\<open>Message.UnmarshalCBOR\<close>,
  \<^verbatim>\<open>Message.GetAddrs\<close>, \<^verbatim>\<open>Message.SetAddrs\<close>). They are parameters of the model.\<close>

record ext =
  MakeTopic :: "peer_ID \<Rightarrow> string \<Rightarrow> error + Topic"
  Subscribe :: "Topic \<Rightarrow> error + Subscription"
  topic_Close :: "Topic \<Rightarrow> error option"
  sender_New :: "Topic \<Rightarrow> error + Sender"
  sender_Send :: "Sender \<Rightarrow> ctx \<Rightarrow> Message \<Rightarrow> error option"
  sender_Close :: "Sender \<Rightarrow> error option"
  IDFromBytes :: "bytes \<Rightarrow> error + peer_ID"
  peer_Decode :: "string \<Rightarrow> error + peer_ID"
  peer_String :: "peer_ID \<Rightarrow> string"
  UnmarshalCBOR :: "bytes \<Rightarrow> error + Message"
  GetAddrs :: "bytes list \<Rightarrow> error + Multiaddr list"
  SetAddrs :: "Multiaddr list \<Rightarrow> bytes list"

datatype 'a outcome =
    Returned 'a Receiver
  | Blocked Receiver
  | Panicked Receiver

definition logw :: "level \<Rightarrow> string \<Rightarrow> Receiver \<Rightarrow> Receiver" where
  "logw l s r = r\<lparr>logged := logged r @ [(l, s)]\<rparr>"

subsection \<open>Admission, republish and delivery\<close>

definition peer_rejected :: "Receiver \<Rightarrow> peer_ID \<Rightarrow> bool" where
  "peer_rejected r p = (case allowPeer r of None \<Rightarrow> False | Some f \<Rightarrow> \<not> f p)"

text \<open>\<^verbatim>\<open>announceCheck\<close>: the peer check, then under the mutex (released by the deferred
  \<^verbatim>\<open>Unlock\<close> on every return) the closed check and the cache update.\<close>

definition announceCheck :: "Receiver \<Rightarrow> Announce \<Rightarrow> error option outcome" where
  "announceCheck r amsg =
     (if peer_rejected r (PeerID amsg) then Returned (Some errSourceNotAllowed) r
      else if announceMutex r then Blocked r
      else if closed r then Returned (Some ErrClosed) r
      else (case stringLRU_update (announceCache r) (Cid_String (Cid amsg)) of
              (seen, c) \<Rightarrow>
                if seen then Returned (Some errAlreadySeenCid) (r\<lparr>announceCache := c\<rparr>)
                else Returned None (r\<lparr>announceCache := c\<rparr>)))"

text \<open>\<^verbatim>\<open>republish\<close>: \<^verbatim>\<open>r.sender.Send\<close> on a nil sender dereferences it.\<close>

definition republish :: "ext \<Rightarrow> Receiver \<Rightarrow> ctx \<Rightarrow> Announce \<Rightarrow> error option outcome" where
  "republish x r c amsg =
     (let msg = \<lparr>msg_Cid = Cid amsg,
                 msg_Addrs = SetAddrs x (Addrs amsg),
                 OrigPeer = peer_String x (PeerID amsg)\<rparr>
      in case sender r of
           None \<Rightarrow> Panicked r
         | Some s \<Rightarrow> Returned (sender_Send x s c msg) r)"

text \<open>The \<^verbatim>\<open>select\<close> that ends \<^verbatim>\<open>handleAnnounce\<close>: the send is ready while the buffer of
  capacity 1 has room, the \<^verbatim>\<open>done\<close> case once the channel is closed, the context case
  once the context is done.\<close>

definition select_send :: "Receiver \<Rightarrow> ctx \<Rightarrow> Announce \<Rightarrow> error option outcome list" where
  "select_send r c amsg =
     (let ready =
            (if length (outChan r) < 1
             then [Returned None (r\<lparr>outChan := outChan r @ [amsg]\<rparr>)] else [])
          @ (if doneCh r then [Returned (Some ErrClosed) r] else [])
          @ (case c of None \<Rightarrow> [] | Some e \<Rightarrow> [Returned (Some e) r])
      in if ready = [] then [Blocked r] else ready)"

definition handleAnnounce ::
  "ext \<Rightarrow> Receiver \<Rightarrow> ctx \<Rightarrow> Announce \<Rightarrow> bool \<Rightarrow> error option outcome list" where
  "handleAnnounce x r c amsg rs =
     (case announceCheck r amsg of
        Blocked r1 \<Rightarrow> [Blocked r1]
      | Panicked r1 \<Rightarrow> [Panicked r1]
      | Returned (Some err) r1 \<Rightarrow>
          if err = ErrClosed then [Returned (Some err) r1]
          else [Returned None (logw LInfo ''Ignored announcement'' r1)]
      | Returned None r1 \<Rightarrow>
          (let amsg1 = (if filterIPs r1 then amsg\<lparr>Addrs := FilterPublic (Addrs amsg)\<rparr>
                        else amsg)
           in if rs
              then (case republish x r1 c amsg1 of
                      Blocked r2 \<Rightarrow> [Blocked r2]
                    | Panicked r2 \<Rightarrow> [Panicked r2]
                    | Returned (Some err) r2 \<Rightarrow>
                        select_send (logw LError ''Cannot republish announce message'' r2)
                          c amsg1
                    | Returned None r2 \<Rightarrow>
                        select_send
                          (logw LInfo
                             ''Re-published direct announce message in pubsub channel'' r2)
                          c amsg1)
              else select_send r1 c amsg1))"

definition Direct ::
  "ext \<Rightarrow> Receiver \<Rightarrow> ctx \<Rightarrow> Cid_t \<Rightarrow> peer_ID \<Rightarrow> Multiaddr list \<Rightarrow> error option outcome list"
  where
  "Direct x r c nextCid peerID addrs =
     handleAnnounce x (logw LInfo ''Handling direct announce'' r) c
       \<lparr>Cid = nextCid, PeerID = peerID, Addrs = addrs\<rparr> (resend r)"

text \<open>\<^verbatim>\<open>Next\<close>: the three cases of its \<^verbatim>\<open>select\<close>, in the order of the source.\<close>

definition Next :: "Receiver \<Rightarrow> ctx \<Rightarrow> (error + Announce) outcome list" where
  "Next r c =
     (let ready =
            (case c of None \<Rightarrow> [] | Some e \<Rightarrow> [Returned (Inl e) r])
          @ (case outChan r of
               [] \<Rightarrow> []
             | amsg # rest \<Rightarrow> [Returned (Inr amsg) (r\<lparr>outChan := rest\<rparr>)])
          @ (if doneCh r then [Returned (Inl ErrClosed) r] else [])
      in if ready = [] then [Blocked r] else ready)"

definition UncacheCid :: "Receiver \<Rightarrow> Cid_t \<Rightarrow> unit outcome" where
  "UncacheCid r adCid =
     (if announceMutex r then Blocked r
      else Returned ()
             (r\<lparr>announceCache := stringLRU_remove (announceCache r) (Cid_String adCid)\<rparr>))"

subsection \<open>Close\<close>

text \<open>The second half of \<^verbatim>\<open>Close\<close>: cancel the watcher and wait for \<^verbatim>\<open>watchDone\<close>. Every
  blocking point of the watcher ends on the cancellation or on the closed \<^verbatim>\<open>done\<close>
  channel, so the watcher exits and closes \<^verbatim>\<open>watchDone\<close>; a receive on a nil channel
  never returns.\<close>

definition Close_watch :: "Receiver \<Rightarrow> unit outcome" where
  "Close_watch r =
     (case cancelWatch r of
        None \<Rightarrow> Returned () r
      | Some _ \<Rightarrow>
          (let r1 = r\<lparr>cancelWatch := Some True\<rparr>
           in case watchDone r1 of
                None \<Rightarrow> Blocked r1
              | Some _ \<Rightarrow> Returned () (r1\<lparr>watchDone := Some True\<rparr>)))"

text \<open>The end of \<^verbatim>\<open>Close\<close>: leave the topic when the receiver owns it, otherwise close
  the sender. \<open>topic_closed\<close> and \<open>sender_closed\<close> record that the call was made.\<close>

definition Close_pubsub :: "ext \<Rightarrow> Receiver \<Rightarrow> error option outcome" where
  "Close_pubsub x r =
     (case cancelPubsub r of
        Some _ \<Rightarrow>
          (case topic r of
             None \<Rightarrow> Panicked r
           | Some t \<Rightarrow>
               Returned
                 (case topic_Close x t of
                    None \<Rightarrow> None
                  | Some e \<Rightarrow> Some (Wrapped ''failed to close pubsub topic'' e))
                 (r\<lparr>topic := Some (t\<lparr>topic_closed := True\<rparr>), cancelPubsub := Some True\<rparr>))
      | None \<Rightarrow>
          (case sender r of
             Some s \<Rightarrow>
               Returned (sender_Close x s) (r\<lparr>sender := Some (s\<lparr>sender_closed := True\<rparr>)\<rparr>)
           | None \<Rightarrow> Returned None r))"

text \<open>\<^verbatim>\<open>Close\<close>. The branch \<^verbatim>\<open>if r.closed { return nil }\<close> returns between \<^verbatim>\<open>Lock\<close> and
  \<^verbatim>\<open>Unlock\<close>: the mutex stays held.\<close>

definition Close :: "ext \<Rightarrow> Receiver \<Rightarrow> error option outcome" where
  "Close x r =
     (if announceMutex r then Blocked r
      else if closed r then Returned None (r\<lparr>announceMutex := True\<rparr>)
      else
        (let r1 = r\<lparr>announceMutex := True, closed := True\<rparr>;
             r2 = (case topicSub r1 of
                     None \<Rightarrow> r1
                   | Some s \<Rightarrow> r1\<lparr>topicSub := Some (s\<lparr>sub_cancelled := True\<rparr>)\<rparr>);
             r3 = r2\<lparr>announceMutex := False\<rparr>
         in if doneCh r3 then Panicked r3
            else (case Close_watch (r3\<lparr>doneCh := True\<rparr>) of
                    Blocked r4 \<Rightarrow> Blocked r4
                  | Panicked r4 \<Rightarrow> Panicked r4
                  | Returned _ r4 \<Rightarrow> Close_pubsub x r4)))"

subsection \<open>The watcher\<close>

text \<open>What \<^verbatim>\<open>r.topicSub.Next(ctx)\<close> hands to one iteration of the loop.\<close>

datatype read_result = ReadMsg pubsub_Message | ReadErr error

datatype step = Continue Receiver | Break Receiver | Stuck "unit outcome"

text \<open>The call of \<^verbatim>\<open>handleAnnounce\<close> at the end of the loop body, with what the loop does
  on each result.\<close>

definition watch_handle ::
  "ext \<Rightarrow> Receiver \<Rightarrow> ctx \<Rightarrow> Message \<Rightarrow> peer_ID \<Rightarrow> Multiaddr list \<Rightarrow> step list" where
  "watch_handle x r c m srcPeer addrs =
     map (\<lambda>out. case out of
                  Returned None r1 \<Rightarrow> Continue r1
                | Returned (Some err) r1 \<Rightarrow>
                    if errors_Is err ErrClosed \<or> errors_Is err Canceled then Break r1
                    else Continue (logw LError ''Cannot process message'' r1)
                | Blocked r1 \<Rightarrow> Stuck (Blocked r1)
                | Panicked r1 \<Rightarrow> Stuck (Panicked r1))
       (handleAnnounce x r c \<lparr>Cid = msg_Cid m, PeerID = srcPeer, Addrs = addrs\<rparr> False)"

text \<open>One iteration of the loop of \<^verbatim>\<open>watch\<close>, given the result of the read. The read
  itself dereferences \<^verbatim>\<open>r.topicSub\<close>.\<close>

definition watch_iter :: "ext \<Rightarrow> Receiver \<Rightarrow> ctx \<Rightarrow> read_result \<Rightarrow> step list" where
  "watch_iter x r c res =
     (case topicSub r of
        None \<Rightarrow> [Stuck (Panicked r)]
      | Some sub \<Rightarrow>
          (case res of
             ReadErr err \<Rightarrow>
               if errors_Is err Canceled \<or> errors_Is err ErrSubscriptionCancelled
               then [Break r]
               else
                 (let r1 = logw LError ''Error reading from pubsub'' r
                  in if announceMutex r1 then [Stuck (Blocked r1)]
                     else
                       (let r2 = r1\<lparr>topicSub := Some (sub\<lparr>sub_cancelled := True\<rparr>)\<rparr>
                        in case topic r2 of
                             None \<Rightarrow> [Stuck (Panicked (r2\<lparr>announceMutex := True\<rparr>))]
                           | Some t \<Rightarrow>
                               (case Subscribe x t of
                                  Inl e \<Rightarrow>
                                    [Break (logw LError ''Cannot restart subscription''
                                              (r2\<lparr>topicSub := None\<rparr>))]
                                | Inr s \<Rightarrow> [Continue (r2\<lparr>topicSub := Some s\<rparr>)])))
           | ReadMsg msg \<Rightarrow>
               (case IDFromBytes x (From msg) of
                  Inl _ \<Rightarrow> [Continue r]
                | Inr srcPeer \<Rightarrow>
                    (case UnmarshalCBOR x (Data msg) of
                       Inl _ \<Rightarrow> [Continue (logw LError ''Could not decode pubsub message'' r)]
                     | Inr m \<Rightarrow>
                         (case (if msg_Addrs m \<noteq> [] then GetAddrs x (msg_Addrs m)
                                else Inr [])
                          of
                            Inl _ \<Rightarrow>
                              [Continue (logw LError ''Could not decode pubsub message'' r)]
                          | Inr addrs \<Rightarrow>
                              if OrigPeer m \<noteq> ''''
                              then
                                if srcPeer = hostID r
                                then [Continue
                                        (logw LDebug ''Ignored rebuplished announce from self''
                                           r)]
                                else
                                  (case peer_Decode x (OrigPeer m) of
                                     Inl _ \<Rightarrow>
                                       [Continue
                                          (logw LError
                                             ''Cannot read peerID from republished announce''
                                             r)]
                                   | Inr origPeer \<Rightarrow>
                                       watch_handle x
                                         (logw LInfo
                                            ''Handling re-published pubsub announce'' r)
                                         c m origPeer addrs)
                              else
                                watch_handle x (logw LInfo ''Handling pubsub announce'' r)
                                  c m srcPeer addrs)))))"

text \<open>\<^verbatim>\<open>close(r.watchDone)\<close> after the loop: closing a nil or a closed channel panics.\<close>

definition close_watchDone :: "Receiver \<Rightarrow> unit outcome" where
  "close_watchDone r =
     (case watchDone r of
        Some False \<Rightarrow> Returned () (r\<lparr>watchDone := Some True\<rparr>)
      | _ \<Rightarrow> Panicked r)"

text \<open>\<^verbatim>\<open>watch\<close>, run on the results of the successive reads. When they are used up the
  watcher waits in the next read.\<close>

fun watch :: "ext \<Rightarrow> Receiver \<Rightarrow> ctx \<Rightarrow> read_result list \<Rightarrow> unit outcome list" where
  "watch x r c [] = [case topicSub r of None \<Rightarrow> Panicked r | Some _ \<Rightarrow> Blocked r]"
| "watch x r c (res # rest) =
     concat (map (\<lambda>s. case s of
                         Continue r1 \<Rightarrow> watch x r1 c rest
                       | Break r1 \<Rightarrow> [close_watchDone r1]
                       | Stuck out \<Rightarrow> [out])
               (watch_iter x r c res))"

subsection \<open>Construction\<close>

text \<open>The options after \<^verbatim>\<open>getOpts\<close>, which is not among the sources: \<open>NewReceiver\<close> takes
  its result.\<close>

record config =
  opt_allowPeer :: "(peer_ID \<Rightarrow> bool) option"
  opt_filterIPs :: bool
  opt_resend :: bool
  opt_topic :: "Topic option"

text \<open>What \<^verbatim>\<open>NewReceiver\<close> does besides building the receiver.\<close>

datatype effect = JoinedTopic Topic | CancelledPubsub | StartedWatch

definition NewReceiver_build ::
  "peer_ID option \<Rightarrow> config \<Rightarrow> Topic option \<Rightarrow> bool option \<Rightarrow> Sender option \<Rightarrow>
   Subscription option \<Rightarrow> bool \<Rightarrow> effect list \<Rightarrow> log_entry list \<Rightarrow>
   effect list \<times> (error + Receiver)" where
  "NewReceiver_build p2pHost opts pubsubTopic cancel sndr sub rs effs lg =
     (let r = \<lparr>allowPeer = opt_allowPeer opts,
                filterIPs = opt_filterIPs opts,
                resend = rs,
                hostID = '''',
                announceCache = newStringLRU announceCacheSize,
                announceMutex = False,
                closed = False,
                cancelWatch = None,
                watchDone = None,
                doneCh = False,
                cancelPubsub = cancel,
                sender = sndr,
                topic = pubsubTopic,
                topicSub = sub,
                outChan = [],
                logged = lg\<rparr>
      in case p2pHost of
           None \<Rightarrow> (effs, Inr r)
         | Some h \<Rightarrow>
             (effs @ [StartedWatch],
              Inr (r\<lparr>hostID := h, cancelWatch := Some False, watchDone := Some False\<rparr>)))"

text \<open>The first part of \<^verbatim>\<open>NewReceiver\<close>: the topic, and the cancellation that exists only
  when the topic was created here.\<close>

definition NewReceiver_topic ::
  "ext \<Rightarrow> peer_ID option \<Rightarrow> string \<Rightarrow> config \<Rightarrow>
   error + (Topic option \<times> bool option \<times> effect list \<times> log_entry list)" where
  "NewReceiver_topic x p2pHost topicName opts =
     (case p2pHost of
        Some h \<Rightarrow>
          if opt_topic opts = None \<and> topicName \<noteq> ''''
          then (case MakeTopic x h topicName of
                  Inl err \<Rightarrow> Inl err
                | Inr t \<Rightarrow>
                    Inr (Some t, Some False, [JoinedTopic t],
                         [(LInfo, ''Created gossip pubsub and joined topic'')]))
          else Inr (opt_topic opts, None, [], [])
      | None \<Rightarrow> Inr (opt_topic opts, None, [], []))"

definition NewReceiver ::
  "ext \<Rightarrow> peer_ID option \<Rightarrow> string \<Rightarrow> error + config \<Rightarrow> effect list \<times> (error + Receiver)"
  where
  "NewReceiver x p2pHost topicName optsRes =
     (case optsRes of
        Inl err \<Rightarrow> ([], Inl err)
      | Inr opts \<Rightarrow>
          (case NewReceiver_topic x p2pHost topicName opts of
             Inl err \<Rightarrow> ([], Inl err)
           | Inr (pubsubTopic, cancel, effs, lg) \<Rightarrow>
               (case pubsubTopic of
                  Some t \<Rightarrow>
                    (case Subscribe x t of
                       Inl err \<Rightarrow>
                         (effs @ (if cancel \<noteq> None then [CancelledPubsub] else []), Inl err)
                     | Inr sub \<Rightarrow>
                         (case sender_New x t of
                            Inl err \<Rightarrow> (effs, Inl err)
                          | Inr sndr \<Rightarrow>
                              NewReceiver_build p2pHost opts pubsubTopic cancel (Some sndr)
                                (Some sub) (opt_resend opts) effs lg))
                | None \<Rightarrow>
                    NewReceiver_build p2pHost opts pubsubTopic cancel None None False effs
                      lg)))"

subsection \<open>Notions used in the statements\<close>

text \<open>The receiver an outcome leaves behind.\<close>

fun receiver_of :: "'a outcome \<Rightarrow> Receiver" where
  "receiver_of (Returned v r) = r"
| "receiver_of (Blocked r) = r"
| "receiver_of (Panicked r) = r"

text \<open>The announcement as it leaves the address filter, and the cache after a key
  was promoted or inserted.\<close>

definition filtered :: "Receiver \<Rightarrow> Announce \<Rightarrow> Announce" where
  "filtered r amsg = (if filterIPs r then amsg\<lparr>Addrs := FilterPublic (Addrs amsg)\<rparr> else amsg)"

definition cached :: "Receiver \<Rightarrow> Announce \<Rightarrow> Receiver" where
  "cached r amsg =
     r\<lparr>announceCache := snd (stringLRU_update (announceCache r) (Cid_String (Cid amsg)))\<rparr>"

text \<open>The receiver after the republish step: only the log has grown.\<close>

definition republished :: "ext \<Rightarrow> Receiver \<Rightarrow> ctx \<Rightarrow> Announce \<Rightarrow> Sender \<Rightarrow> Receiver" where
  "republished x r c amsg s =
     (case sender_Send x s c
             \<lparr>msg_Cid = Cid amsg, msg_Addrs = SetAddrs x (Addrs amsg),
              OrigPeer = peer_String x (PeerID amsg)\<rparr> of
        Some err \<Rightarrow> logw LError ''Cannot republish announce message'' r
      | None \<Rightarrow> logw LInfo ''Re-published direct announce message in pubsub channel'' r)"

section \<open>Concrete collaborators and receivers\<close>

text \<open>Collaborators that always succeed. Peer ids are decoded and printed as they are
  (the empty string is no peer id); the codec knows two message bodies.\<close>

definition ext_ok :: ext where
  "ext_ok =
     \<lparr>MakeTopic = (\<lambda>h n. Inr \<lparr>topic_name = n, topic_closed = False\<rparr>),
      Subscribe = (\<lambda>t. Inr \<lparr>sub_topic = topic_name t, sub_cancelled = False\<rparr>),
      topic_Close = (\<lambda>t. None),
      sender_New = (\<lambda>t. Inr \<lparr>sender_topic = topic_name t, sender_closed = False\<rparr>),
      sender_Send = (\<lambda>s c m. None),
      sender_Close = (\<lambda>s. None),
      IDFromBytes = (\<lambda>b. if b = [] then Inl (OtherError ''no peer id'') else Inr b),
      peer_Decode = (\<lambda>s. if s = [] then Inl (OtherError ''no peer id'') else Inr s),
      peer_String = (\<lambda>p. p),
      UnmarshalCBOR =
        (\<lambda>d. if d = ''relay of B''
             then Inr \<lparr>msg_Cid = ''B'', msg_Addrs = [], OrigPeer = ''H''\<rparr>
             else if d = ''first hop C''
             then Inr \<lparr>msg_Cid = ''C'', msg_Addrs = [], OrigPeer = ''''\<rparr>
             else Inl (OtherError ''cbor'')),
      GetAddrs = (\<lambda>bs. Inl (OtherError ''multiaddr'')),
      SetAddrs = (\<lambda>as. [])\<rparr>"

text \<open>The same collaborators with a sender that cannot be built, a subscription that
  cannot be opened, and a sender whose \<^verbatim>\<open>Send\<close> fails.\<close>

definition ext_no_sender :: ext where
  "ext_no_sender = ext_ok\<lparr>sender_New := (\<lambda>t. Inl (OtherError ''no sender''))\<rparr>"

definition ext_no_sub :: ext where
  "ext_no_sub = ext_ok\<lparr>Subscribe := (\<lambda>t. Inl (OtherError ''no subscription''))\<rparr>"

definition ext_send_fails :: ext where
  "ext_send_fails = ext_ok\<lparr>sender_Send := (\<lambda>s c m. Some (OtherError ''publish failed''))\<rparr>"

definition cfg0 :: config where
  "cfg0 = \<lparr>opt_allowPeer = None, opt_filterIPs = False, opt_resend = False,
           opt_topic = None\<rparr>"

text \<open>An open receiver of host \<open>H\<close> on the topic \<open>t\<close> that the caller supplied.\<close>

definition rcv0 :: Receiver where
  "rcv0 =
     \<lparr>allowPeer = None,
      filterIPs = False,
      resend = False,
      hostID = ''H'',
      announceCache = newStringLRU announceCacheSize,
      announceMutex = False,
      closed = False,
      cancelWatch = Some False,
      watchDone = Some False,
      doneCh = False,
      cancelPubsub = None,
      sender = Some \<lparr>sender_topic = ''t'', sender_closed = False\<rparr>,
      topic = Some \<lparr>topic_name = ''t'', topic_closed = False\<rparr>,
      topicSub = Some \<lparr>sub_topic = ''t'', sub_cancelled = False\<rparr>,
      outChan = [],
      logged = []\<rparr>"

text \<open>The addresses \<^verbatim>\<open>/ip4/1.2.3.4/tcp/80\<close>, \<^verbatim>\<open>/ip4/127.0.0.1/tcp/1\<close> and
  \<^verbatim>\<open>/ip4/8.8.8.8/tcp/2\<close>.\<close>

definition addr_1234 :: Multiaddr where
  "addr_1234 = Some [IP4 1 2 3 4, TCP 80]"

definition addr_loop :: Multiaddr where
  "addr_loop = Some [IP4 127 0 0 1, TCP 1]"

definition addr_8888 :: Multiaddr where
  "addr_8888 = Some [IP4 8 8 8 8, TCP 2]"

definition ann_A :: Announce where
  "ann_A = \<lparr>Cid = ''A'', PeerID = ''P1'', Addrs = [addr_1234]\<rparr>"

text \<open>\<open>rcv0\<close> after it has accepted the CID \<open>A\<close> and the consumer has taken it.\<close>

definition rcv_seenA :: Receiver where
  "rcv_seenA = rcv0\<lparr>announceCache := \<lparr>lru_cap = announceCacheSize, lru_keys = [''A'']\<rparr>\<rparr>"

text \<open>\<open>rcv_seenA\<close> after a completed \<open>Close\<close>.\<close>

definition rcv_closed :: Receiver where
  "rcv_closed =
     rcv_seenA\<lparr>closed := True, doneCh := True, cancelWatch := Some True,
                watchDone := Some True,
                topicSub := Some \<lparr>sub_topic = ''t'', sub_cancelled = True\<rparr>,
                sender := Some \<lparr>sender_topic = ''t'', sender_closed = True\<rparr>\<rparr>"

text \<open>An open receiver that admits every peer but \<open>P\<close> and has seen \<open>A\<close>, then \<open>B\<close>.\<close>

definition rcv_notP :: Receiver where
  "rcv_notP =
     rcv0\<lparr>allowPeer := Some (\<lambda>p. p \<noteq> ''P''),
          announceCache := \<lparr>lru_cap = announceCacheSize, lru_keys = [''B'', ''A'']\<rparr>\<rparr>"

text \<open>\<open>rcv0\<close> after a \<open>Direct\<close> call for \<open>ann_A\<close> has put it into the output channel.\<close>

definition rcv_directA :: Receiver where
  "rcv_directA =
     rcv0\<lparr>announceCache := \<lparr>lru_cap = announceCacheSize, lru_keys = [''A'']\<rparr>,
          outChan := [ann_A],
          logged := [(LInfo, ''Handling direct announce'')]\<rparr>"

text \<open>A receiver that filters addresses, and an announcement with the addresses
  \<^verbatim>\<open>/ip4/127.0.0.1/tcp/1\<close> and \<^verbatim>\<open>/ip4/8.8.8.8/tcp/2\<close>.\<close>

definition rcv_filter :: Receiver where
  "rcv_filter = rcv0\<lparr>filterIPs := True\<rparr>"

definition ann_D :: Announce where
  "ann_D = \<lparr>Cid = ''D'', PeerID = ''P1'', Addrs = [addr_loop, addr_8888]\<rparr>"

definition rcv_filter_D :: Receiver where
  "rcv_filter_D =
     rcv_filter\<lparr>announceCache := \<lparr>lru_cap = announceCacheSize, lru_keys = [''D'']\<rparr>,
                outChan := [ann_D\<lparr>Addrs := [addr_8888]\<rparr>]\<rparr>"

text \<open>\<open>rcv0\<close> after its watcher has handled a relay of \<open>B\<close> that names \<open>H\<close> as the
  original peer.\<close>

definition rcv_relayed :: Receiver where
  "rcv_relayed =
     rcv0\<lparr>announceCache := \<lparr>lru_cap = announceCacheSize, lru_keys = [''B'']\<rparr>,
          outChan := [\<lparr>Cid = ''B'', PeerID = ''H'', Addrs = []\<rparr>],
          logged := [(LInfo, ''Handling re-published pubsub announce'')]\<rparr>"

text \<open>The addresses of the package's test of \<^verbatim>\<open>FilterPublic\<close>, in its order.\<close>

definition test_addrs :: "Multiaddr list" where
  "test_addrs =
     [Some [IP4 10 255 0 0, TCP 443],
      Some [IP4 11 0 0 0, TCP 80],
      Some [IP6 [0xfc, 0, 0, 0, 0, 0, 0, 0, 0, 0, 0, 0, 0, 0, 0, 0], TCP 1717],
      Some [IP6 [0xfe, 0, 0, 0, 0, 0, 0, 0, 0, 0, 0, 0, 0, 0, 0, 0], TCP 8080],
      Some [IP4 192 168 11 22, TCP 9999],
      Some [DNS ''example.net'', TCP 1234],
      Some [IP4 127 0 0 1, TCP 9999],
      Some [DNS ''localhost'', TCP 1234],
      Some [IP6 [0, 0, 0, 0, 0, 0, 0, 0, 0, 0, 0, 0, 0, 0, 0, 0], TCP 3105, HTTP],
      Some [IP4 0 0 0 0, TCP 3105]]"

text \<open>The options from which \<open>NewReceiver\<close> builds \<open>rcv0\<close>: the topic \<open>t\<close> is supplied by
  the caller.\<close>

definition cfg_t :: config where
  "cfg_t = cfg0\<lparr>opt_topic := Some \<lparr>topic_name = ''t'', topic_closed = False\<rparr>\<rparr>"

section \<open>What the callers of the admission pipeline can get back\<close>

lemmas eval_defs =
  handleAnnounce_def announceCheck_def peer_rejected_def select_send_def republish_def
  Direct_def Next_def UncacheCid_def Close_def Close_watch_def Close_pubsub_def logw_def
  stringLRU_update_def stringLRU_remove_def newStringLRU_def announceCacheSize_def
  Cid_String_def FilterPublic_def non_public_def first_ip_def
  watch_iter_def watch_handle_def close_watchDone_def
  NewReceiver_def NewReceiver_topic_def NewReceiver_build_def
  ext_ok_def ext_no_sender_def ext_no_sub_def ext_send_fails_def cfg0_def
  rcv0_def rcv_seenA_def rcv_closed_def rcv_notP_def ann_A_def
  addr_1234_def addr_loop_def addr_8888_def Let_def

text \<open>The receivers used below are states the code reaches: \<open>rcv0\<close> is what
  \<open>NewReceiver\<close> returns, and the model of \<open>FilterPublic\<close> passes the package's test.\<close>

lemma NewReceiver_rcv0:
  "NewReceiver ext_ok (Some ''H'') ''t'' (Inr cfg_t) = ([StartedWatch], Inr rcv0)"
  by (simp add: eval_defs cfg_t_def)

lemma FilterPublic_test:
  "FilterPublic test_addrs = [test_addrs ! 1, test_addrs ! 3, test_addrs ! 5]"
  "FilterPublic [] = []"
  "FilterPublic [None] = [None]"
  by (simp_all add: FilterPublic_def non_public_def first_ip_def test_addrs_def)

lemma select_send_returns:
  "Returned e r' \<in> set (select_send r c amsg) \<Longrightarrow>
     e = None \<or> e = Some ErrClosed \<or> (e \<noteq> None \<and> e = c)"
  by (auto simp: select_send_def Let_def split: if_splits option.splits)

lemma handleAnnounce_result_cases:
  "Returned e r' \<in> set (handleAnnounce x r c amsg rs) \<Longrightarrow>
     e = None \<or> e = Some ErrClosed \<or> (e \<noteq> None \<and> e = c)"
  unfolding handleAnnounce_def
  by (auto simp: Let_def dest: select_send_returns
           split: outcome.splits option.splits if_splits)

text \<open>C4. Whatever the receiver, the context, the announcement and the resend flag,
  a result that \<open>handleAnnounce\<close> or \<open>Direct\<close> returns is nil, \<open>ErrClosed\<close>, or the error
  of the caller's context (and then the context is done). In particular
  \<open>errSourceNotAllowed\<close>, \<open>errAlreadySeenCid\<close> and the error of a failed republish are
  returned only if they are the context's own error.\<close>

theorem handleAnnounce_returns:
  assumes "Returned e r' \<in> set (handleAnnounce x r c amsg rs)
           \<or> Returned e r' \<in> set (Direct x r c nextCid peerID addrs)"
  shows "e = None \<or> e = Some ErrClosed \<or> (e \<noteq> None \<and> e = c)"
  using assms handleAnnounce_result_cases unfolding Direct_def by blast

theorem handleAnnounce_returns_witness:
  "Returned (Some ErrClosed) rcv_closed
     \<in> set (handleAnnounce ext_ok rcv_closed (Some DeadlineExceeded) ann_A True)
   \<and> (Some ErrClosed = (None :: error option)
      \<or> Some ErrClosed = Some ErrClosed
      \<or> (Some ErrClosed \<noteq> (None :: error option)
         \<and> Some ErrClosed = Some DeadlineExceeded))"
proof -
  have h: "Returned (Some ErrClosed) rcv_closed
     \<in> set (handleAnnounce ext_ok rcv_closed (Some DeadlineExceeded) ann_A True)"
    by (simp add: eval_defs)
  from handleAnnounce_returns [OF disjI1 [OF h]] h show ?thesis by simp
qed

section \<open>Admission\<close>

text \<open>\<open>handleAnnounce\<close> by the branch it takes.\<close>

lemma handleAnnounce_branches:
  "handleAnnounce x r c amsg rs =
     (if peer_rejected r (PeerID amsg)
      then [Returned None (logw LInfo ''Ignored announcement'' r)]
      else if announceMutex r then [Blocked r]
      else if closed r then [Returned (Some ErrClosed) r]
      else if Cid_String (Cid amsg) \<in> set (lru_keys (announceCache r))
      then [Returned None (logw LInfo ''Ignored announcement'' (cached r amsg))]
      else if rs
      then (case sender r of
              None \<Rightarrow> [Panicked (cached r amsg)]
            | Some s \<Rightarrow>
                select_send (republished x (cached r amsg) c (filtered r amsg) s) c
                  (filtered r amsg))
      else select_send (cached r amsg) c (filtered r amsg))"
  by (simp add: handleAnnounce_def announceCheck_def stringLRU_update_def cached_def
        filtered_def republished_def republish_def Let_def
      split: option.splits)

lemma select_send_outChan:
  "out \<in> set (select_send r c amsg) \<Longrightarrow>
     receiver_of out = r \<or> (out = Returned None (r\<lparr>outChan := [amsg]\<rparr>) \<and> outChan r = [])"
  by (auto simp: select_send_def Let_def split: if_splits option.splits)

lemma select_send_room:
  "outChan r = [] \<Longrightarrow> Returned None (r\<lparr>outChan := [amsg]\<rparr>) \<in> set (select_send r c amsg)"
  by (simp add: select_send_def Let_def)

lemma select_send_only:
  "outChan r = [] \<Longrightarrow> \<not> doneCh r \<Longrightarrow>
     select_send r None amsg = [Returned None (r\<lparr>outChan := [amsg]\<rparr>)]"
  by (simp add: select_send_def Let_def)

lemma republished_restore:
  "(republished x r c amsg s)\<lparr>outChan := a, logged := lg\<rparr> = r\<lparr>outChan := a, logged := lg\<rparr>"
  by (simp add: republished_def logw_def split: option.splits)

lemma republished_frame:
  "outChan (republished x r c amsg s) = outChan r"
  "doneCh (republished x r c amsg s) = doneCh r"
  by (simp_all add: republished_def logw_def split: option.splits)

lemma cached_frame:
  "outChan (cached r amsg) = outChan r"
  "logged (cached r amsg) = logged r"
  "doneCh (cached r amsg) = doneCh r"
  "closed (cached r amsg) = closed r"
  "announceMutex (cached r amsg) = announceMutex r"
  "allowPeer (cached r amsg) = allowPeer r"
  "filterIPs (cached r amsg) = filterIPs r"
  "sender (cached r amsg) = sender r"
  "resend (cached r amsg) = resend r"
  by (simp_all add: cached_def)

lemma cached_has: "Cid_String (Cid amsg) \<in> set (lru_keys (announceCache (cached r amsg)))"
  by (simp add: cached_def stringLRU_update_def)

lemma cached_restore:
  "outChan r = [] \<Longrightarrow> (cached r amsg)\<lparr>outChan := [], logged := logged r\<rparr> = cached r amsg"
  by (simp add: cached_def)

text \<open>An outcome of \<open>handleAnnounce\<close> that changed the output channel: the call passed
  every check on an empty channel, returned nil, and left the receiver with the CID
  cached and the filtered announcement in the channel; nothing else but the log
  differs.\<close>

lemma handleAnnounce_delivered:
  assumes out: "out \<in> set (handleAnnounce x r c amsg rs)"
      and ch: "outChan (receiver_of out) \<noteq> outChan r"
  shows "\<not> peer_rejected r (PeerID amsg) \<and> \<not> announceMutex r \<and> \<not> closed r
         \<and> Cid_String (Cid amsg) \<notin> set (lru_keys (announceCache r))
         \<and> outChan r = [] \<and> out = Returned None (receiver_of out)
         \<and> outChan (receiver_of out) = [filtered r amsg]
         \<and> (receiver_of out)\<lparr>outChan := [], logged := logged r\<rparr> = cached r amsg
         \<and> (rs \<longrightarrow> sender r \<noteq> None)"
proof -
  have rej: "\<not> peer_rejected r (PeerID amsg)"
    using out ch by (auto simp: handleAnnounce_branches logw_def)
  have mu: "\<not> announceMutex r"
    using out ch rej by (auto simp: handleAnnounce_branches)
  have cl: "\<not> closed r"
    using out ch rej mu by (auto simp: handleAnnounce_branches)
  have fresh: "Cid_String (Cid amsg) \<notin> set (lru_keys (announceCache r))"
    using out ch rej mu cl by (auto simp: handleAnnounce_branches logw_def cached_frame)
  show ?thesis
  proof (cases rs)
    case False
    with out rej mu cl fresh
    have "out \<in> set (select_send (cached r amsg) c (filtered r amsg))"
      by (simp add: handleAnnounce_branches)
    from select_send_outChan [OF this] ch
    have "out = Returned None ((cached r amsg)\<lparr>outChan := [filtered r amsg]\<rparr>)"
      and "outChan r = []"
      by (auto simp: cached_frame)
    with rej mu cl fresh False show ?thesis
      by (simp add: cached_restore)
  next
    case True
    show ?thesis
    proof (cases "sender r")
      case None
      with out rej mu cl fresh True ch show ?thesis
        by (simp add: handleAnnounce_branches cached_frame)
    next
      case (Some s)
      let ?r2 = "republished x (cached r amsg) c (filtered r amsg) s"
      from out rej mu cl fresh True Some
      have "out \<in> set (select_send ?r2 c (filtered r amsg))"
        by (simp add: handleAnnounce_branches)
      from select_send_outChan [OF this] ch
      have o: "out = Returned None (?r2\<lparr>outChan := [filtered r amsg]\<rparr>)"
        and e: "outChan r = []"
        by (auto simp: cached_frame republished_frame)
      have "?r2\<lparr>outChan := [filtered r amsg]\<rparr>\<lparr>outChan := [], logged := logged r\<rparr>
            = cached r amsg"
        using cached_restore [OF e, of amsg] by (simp add: republished_restore)
      with o e rej mu cl fresh True Some show ?thesis
        by simp
    qed
  qed
qed

lemma delivered_fields:
  assumes "r1\<lparr>outChan := [], logged := lg\<rparr> = cached r amsg"
  shows "closed r1 = closed r" and "announceMutex r1 = announceMutex r"
    and "allowPeer r1 = allowPeer r" and "resend r1 = resend r"
    and "filterIPs r1 = filterIPs r" and "sender r1 = sender r"
    and "doneCh r1 = doneCh r"
    and "announceCache r1 = announceCache (cached r amsg)"
  using arg_cong [OF assms, of closed] arg_cong [OF assms, of announceMutex]
    arg_cong [OF assms, of allowPeer] arg_cong [OF assms, of resend]
    arg_cong [OF assms, of filterIPs] arg_cong [OF assms, of sender]
    arg_cong [OF assms, of doneCh] arg_cong [OF assms, of announceCache]
  by (simp_all add: cached_frame)

lemma logw_frame:
  "outChan (logw l s r) = outChan r"
  "closed (logw l s r) = closed r"
  "announceMutex (logw l s r) = announceMutex r"
  "announceCache (logw l s r) = announceCache r"
  "allowPeer (logw l s r) = allowPeer r"
  "resend (logw l s r) = resend r"
  "filterIPs (logw l s r) = filterIPs r"
  "sender (logw l s r) = sender r"
  "doneCh (logw l s r) = doneCh r"
  "peer_rejected (logw l s r) p = peer_rejected r p"
  by (simp_all add: logw_def peer_rejected_def)

text \<open>C10. When the peer-allow predicate rejects the announcement's peer,
  \<open>announceCheck\<close> returns \<open>errSourceNotAllowed\<close> with the receiver untouched, and
  \<open>handleAnnounce\<close> and \<open>Direct\<close> return nil having written only log lines. This holds
  for every receiver, closed or not and with the mutex held or not; overwriting the
  closed flag, the mutex and the dedup set changes nothing in the outcome but those
  fields themselves, so they are neither read nor written.\<close>

theorem handleAnnounce_rejected_peer:
  assumes "peer_rejected r (PeerID amsg)"
  shows "announceCheck r amsg = Returned (Some errSourceNotAllowed) r
       \<and> handleAnnounce x r c amsg rs =
           [Returned None (logw LInfo ''Ignored announcement'' r)]
       \<and> Direct x r c (Cid amsg) (PeerID amsg) (Addrs amsg) =
           [Returned None
              (logw LInfo ''Ignored announcement'' (logw LInfo ''Handling direct announce'' r))]
       \<and> handleAnnounce x (r\<lparr>closed := b, announceMutex := l, announceCache := k\<rparr>) c amsg rs =
           [Returned None
              (logw LInfo ''Ignored announcement''
                 (r\<lparr>closed := b, announceMutex := l, announceCache := k\<rparr>))]"
  using assms
  by (simp add: announceCheck_def handleAnnounce_branches Direct_def logw_frame
        peer_rejected_def)

theorem handleAnnounce_rejected_peer_witness:
  "peer_rejected (rcv_notP\<lparr>closed := True\<rparr>) (PeerID \<lparr>Cid = ''A'', PeerID = ''P'', Addrs = []\<rparr>)
   \<and> closed (rcv_notP\<lparr>closed := True\<rparr>)
   \<and> handleAnnounce ext_ok (rcv_notP\<lparr>closed := True\<rparr>) None
        \<lparr>Cid = ''A'', PeerID = ''P'', Addrs = []\<rparr> False =
        [Returned None (logw LInfo ''Ignored announcement'' (rcv_notP\<lparr>closed := True\<rparr>))]
   \<and> lru_keys (announceCache (logw LInfo ''Ignored announcement'' (rcv_notP\<lparr>closed := True\<rparr>)))
       = [''B'', ''A'']"
proof -
  have h: "peer_rejected (rcv_notP\<lparr>closed := True\<rparr>)
             (PeerID \<lparr>Cid = ''A'', PeerID = ''P'', Addrs = []\<rparr>)"
    by (simp add: peer_rejected_def rcv_notP_def rcv0_def)
  from handleAnnounce_rejected_peer [OF h, of ext_ok None False] h show ?thesis
    by (simp add: rcv_notP_def rcv0_def logw_def)
qed

text \<open>C3, as the code has it. An announcement whose CID string is in the dedup set,
  whose peer passes the peer-allow check, on a receiver that is not closed and whose
  mutex is free: \<open>handleAnnounce\<close> returns nil, the output channel is as it was, the
  CID is at the head of the dedup set and the set holds the same keys, and only the
  log line of the drop is added. And whenever a \<open>Direct\<close> call has put its
  announcement into the output channel, a second \<open>Direct\<close> call with the same CID and
  peer returns nil and leaves the channel as it is: one delivery for the two calls.\<close>

theorem handleAnnounce_duplicate_dropped:
  assumes "Cid_String (Cid amsg) \<in> set (lru_keys (announceCache r))"
      and "\<not> peer_rejected r (PeerID amsg)"
      and "\<not> closed r"
      and "\<not> announceMutex r"
  shows "handleAnnounce x r c amsg rs =
           [Returned None
              (logw LInfo ''Ignored announcement''
                 (r\<lparr>announceCache :=
                      (announceCache r)\<lparr>lru_keys :=
                         Cid_String (Cid amsg)
                         # removeAll (Cid_String (Cid amsg)) (lru_keys (announceCache r))\<rparr>\<rparr>))]
       \<and> (\<forall>e r0 c0 a0 r1.
            Returned e r1 \<in> set (Direct x r0 c0 (Cid amsg) (PeerID amsg) a0)
            \<and> outChan r1 \<noteq> outChan r0
            \<longrightarrow> (\<exists>r2. Direct x r1 c (Cid amsg) (PeerID amsg) (Addrs amsg) = [Returned None r2]
                      \<and> outChan r2 = outChan r1))"
proof (intro conjI allI impI)
  show "handleAnnounce x r c amsg rs =
           [Returned None
              (logw LInfo ''Ignored announcement''
                 (r\<lparr>announceCache :=
                      (announceCache r)\<lparr>lru_keys :=
                         Cid_String (Cid amsg)
                         # removeAll (Cid_String (Cid amsg)) (lru_keys (announceCache r))\<rparr>\<rparr>))]"
    using assms by (simp add: handleAnnounce_branches cached_def stringLRU_update_def)
next
  fix e r0 c0 a0 r1
  let ?a0 = "\<lparr>Cid = Cid amsg, PeerID = PeerID amsg, Addrs = a0\<rparr>"
  let ?a1 = "\<lparr>Cid = Cid amsg, PeerID = PeerID amsg, Addrs = Addrs amsg\<rparr>"
  let ?l0 = "logw LInfo ''Handling direct announce'' r0"
  let ?l1 = "logw LInfo ''Handling direct announce'' r1"
  assume "Returned e r1 \<in> set (Direct x r0 c0 (Cid amsg) (PeerID amsg) a0)
          \<and> outChan r1 \<noteq> outChan r0"
  then have m: "Returned e r1 \<in> set (handleAnnounce x ?l0 c0 ?a0 (resend r0))"
    and ch: "outChan (receiver_of (Returned e r1)) \<noteq> outChan ?l0"
    by (simp_all add: Direct_def logw_frame)
  from handleAnnounce_delivered [OF m ch]
  have rej: "\<not> peer_rejected r0 (PeerID amsg)"
    and mu: "\<not> announceMutex r0" and cl: "\<not> closed r0"
    and eq: "r1\<lparr>outChan := [], logged := logged ?l0\<rparr> = cached ?l0 ?a0"
    by (simp_all add: logw_frame)
  note f = delivered_fields [OF eq]
  have seen: "Cid_String (Cid ?a1) \<in> set (lru_keys (announceCache ?l1))"
    using cached_has [of ?a0 ?l0] f(8) by (simp add: logw_frame)
  have "handleAnnounce x ?l1 c ?a1 (resend r1) =
          [Returned None (logw LInfo ''Ignored announcement'' (cached ?l1 ?a1))]"
    using seen rej mu cl f(1-3)
    by (simp add: handleAnnounce_branches logw_frame peer_rejected_def)
  then show "\<exists>r2. Direct x r1 c (Cid amsg) (PeerID amsg) (Addrs amsg) = [Returned None r2]
                  \<and> outChan r2 = outChan r1"
    by (simp add: Direct_def logw_frame cached_frame)
qed

theorem handleAnnounce_duplicate_dropped_witness:
  "Cid_String (Cid ann_A) \<in> set (lru_keys (announceCache rcv_seenA))
   \<and> \<not> peer_rejected rcv_seenA (PeerID ann_A)
   \<and> \<not> closed rcv_seenA
   \<and> \<not> announceMutex rcv_seenA
   \<and> handleAnnounce ext_ok rcv_seenA None ann_A False =
       [Returned None (logw LInfo ''Ignored announcement'' rcv_seenA)]
   \<and> Direct ext_ok rcv0 None (Cid ann_A) (PeerID ann_A) (Addrs ann_A) =
       [Returned None rcv_directA]
   \<and> outChan rcv_directA \<noteq> outChan rcv0
   \<and> (\<exists>r2. Direct ext_ok rcv_directA None (Cid ann_A) (PeerID ann_A) (Addrs ann_A) =
              [Returned None r2]
            \<and> outChan r2 = [ann_A])"
proof -
  have h1: "Cid_String (Cid ann_A) \<in> set (lru_keys (announceCache rcv_seenA))"
    by (simp add: eval_defs)
  have h2: "\<not> peer_rejected rcv_seenA (PeerID ann_A)"
    by (simp add: eval_defs)
  have h3: "\<not> closed rcv_seenA"
    by (simp add: eval_defs)
  have h4: "\<not> announceMutex rcv_seenA"
    by (simp add: eval_defs)
  note t = handleAnnounce_duplicate_dropped [OF h1 h2 h3 h4, of ext_ok None False]
  have first: "handleAnnounce ext_ok rcv_seenA None ann_A False =
       [Returned None (logw LInfo ''Ignored announcement'' rcv_seenA)]"
    using t [THEN conjunct1] by (simp add: eval_defs)
  have d1: "Direct ext_ok rcv0 None (Cid ann_A) (PeerID ann_A) (Addrs ann_A) =
       [Returned None rcv_directA]"
    by (simp add: eval_defs rcv_directA_def)
  have d2: "outChan rcv_directA \<noteq> outChan rcv0"
    by (simp add: eval_defs rcv_directA_def)
  have "Returned None rcv_directA
          \<in> set (Direct ext_ok rcv0 None (Cid ann_A) (PeerID ann_A) (Addrs ann_A))
        \<and> outChan rcv_directA \<noteq> outChan rcv0"
    using d1 d2 by simp
  with t [THEN conjunct2]
  have "\<exists>r2. Direct ext_ok rcv_directA None (Cid ann_A) (PeerID ann_A) (Addrs ann_A) =
              [Returned None r2]
            \<and> outChan r2 = outChan rcv_directA"
    by blast
  then have second:
    "\<exists>r2. Direct ext_ok rcv_directA None (Cid ann_A) (PeerID ann_A) (Addrs ann_A) =
              [Returned None r2]
            \<and> outChan r2 = [ann_A]"
    by (simp add: rcv_directA_def)
  from h1 h2 h3 h4 first d1 d2 second show ?thesis by blast
qed

text \<open>C3 as stated fails: on a closed receiver whose dedup set holds the CID,
  \<open>handleAnnounce\<close> returns \<open>ErrClosed\<close>, not nil; and when the peer is rejected the
  CID \<open>A\<close>, present behind \<open>B\<close>, is not promoted.\<close>

theorem handleAnnounce_duplicate_counterexample:
  "Cid_String (Cid ann_A) \<in> set (lru_keys (announceCache rcv_closed))
   \<and> handleAnnounce ext_ok rcv_closed None ann_A False = [Returned (Some ErrClosed) rcv_closed]
   \<and> Cid_String (Cid \<lparr>Cid = ''A'', PeerID = ''P'', Addrs = []\<rparr>)
       \<in> set (lru_keys (announceCache rcv_notP))
   \<and> handleAnnounce ext_ok rcv_notP None \<lparr>Cid = ''A'', PeerID = ''P'', Addrs = []\<rparr> False =
       [Returned None (logw LInfo ''Ignored announcement'' rcv_notP)]
   \<and> lru_keys (announceCache (logw LInfo ''Ignored announcement'' rcv_notP)) = [''B'', ''A'']"
  by (simp add: eval_defs)

section \<open>Uncaching\<close>

lemma Next_takes:
  assumes "Returned (Inr a) r2 \<in> set (Next r1 c)"
  shows "outChan r1 = a # tl (outChan r1) \<and> r2 = r1\<lparr>outChan := tl (outChan r1)\<rparr>"
proof (cases "outChan r1")
  case Nil
  with assms show ?thesis
    by (auto simp: Next_def Let_def split: option.splits if_splits)
next
  case (Cons b rest)
  with assms show ?thesis
    by (auto simp: Next_def Let_def split: option.splits if_splits)
qed




section \<open>Republish\<close>

lemma announceCheck_pass:
  "announceCheck r amsg = Returned None r1 \<longleftrightarrow>
     \<not> peer_rejected r (PeerID amsg) \<and> \<not> announceMutex r \<and> \<not> closed r
     \<and> Cid_String (Cid amsg) \<notin> set (lru_keys (announceCache r))
     \<and> r1 = cached r amsg"
  by (auto simp: announceCheck_def stringLRU_update_def cached_def split: if_splits)

lemma republish_frame: "republish x r c amsg = Returned e r2 \<Longrightarrow> r2 = r"
  by (auto simp: republish_def Let_def split: option.splits)

text \<open>C7. When the announcement passes the admission check and the republisher
  fails with an error, \<open>handleAnnounce\<close> with resend true is the delivery step run
  after the error has been logged: the republisher's error is not returned. With
  room in the output channel the announcement can be sent and nil returned; with the
  context live and \<open>done\<close> open this is the only outcome.\<close>

theorem handleAnnounce_republish_failure:
  assumes chk: "announceCheck r amsg = Returned None r1"
      and rep: "republish x r1 c (filtered r amsg) = Returned (Some err) r2"
  shows "handleAnnounce x r c amsg True =
           select_send (logw LError ''Cannot republish announce message'' r1) c
             (filtered r amsg)
       \<and> (outChan r = [] \<longrightarrow>
            Returned None
              ((logw LError ''Cannot republish announce message'' r1)
                 \<lparr>outChan := [filtered r amsg]\<rparr>)
            \<in> set (handleAnnounce x r c amsg True))
       \<and> (outChan r = [] \<and> \<not> doneCh r \<and> c = None \<longrightarrow>
            handleAnnounce x r c amsg True =
              [Returned None
                 ((logw LError ''Cannot republish announce message'' r1)
                    \<lparr>outChan := [filtered r amsg]\<rparr>)])"
proof -
  let ?l = "logw LError ''Cannot republish announce message'' r1"
  from announceCheck_pass [THEN iffD1, OF chk]
  have r1: "r1 = cached r amsg"
    by simp
  have flt: "(if filterIPs r1 then amsg\<lparr>Addrs := FilterPublic (Addrs amsg)\<rparr> else amsg)
             = filtered r amsg"
    by (simp add: r1 filtered_def cached_frame)
  have r2: "r2 = r1"
    using republish_frame [OF rep] .
  have h: "handleAnnounce x r c amsg True = select_send ?l c (filtered r amsg)"
    using chk rep by (simp add: handleAnnounce_def flt r2)
  have o: "outChan r = [] \<Longrightarrow> outChan ?l = []"
    by (simp add: logw_frame r1 cached_frame)
  have d: "doneCh ?l = doneCh r"
    by (simp add: logw_frame r1 cached_frame)
  have room: "outChan r = [] \<longrightarrow>
            Returned None (?l\<lparr>outChan := [filtered r amsg]\<rparr>)
            \<in> set (handleAnnounce x r c amsg True)"
    using h select_send_room [OF o, of "filtered r amsg" c] by simp
  have only: "outChan r = [] \<and> \<not> doneCh r \<and> c = None \<longrightarrow>
            handleAnnounce x r c amsg True =
              [Returned None (?l\<lparr>outChan := [filtered r amsg]\<rparr>)]"
  proof
    assume a: "outChan r = [] \<and> \<not> doneCh r \<and> c = None"
    then have "select_send ?l None (filtered r amsg) =
                 [Returned None (?l\<lparr>outChan := [filtered r amsg]\<rparr>)]"
      using select_send_only [OF o, of "filtered r amsg"] d by simp
    with h a show "handleAnnounce x r c amsg True =
              [Returned None (?l\<lparr>outChan := [filtered r amsg]\<rparr>)]"
      by simp
  qed
  from h room only show ?thesis
    by blast
qed

theorem handleAnnounce_republish_failure_witness:
  "announceCheck rcv0 ann_A = Returned None rcv_seenA
   \<and> republish ext_send_fails rcv_seenA None (filtered rcv0 ann_A) =
       Returned (Some (OtherError ''publish failed'')) rcv_seenA
   \<and> handleAnnounce ext_send_fails rcv0 None ann_A True =
       [Returned None
          (rcv_seenA\<lparr>outChan := [ann_A],
                     logged := [(LError, ''Cannot republish announce message'')]\<rparr>)]"
proof -
  have chk: "announceCheck rcv0 ann_A = Returned None rcv_seenA"
    by (simp add: eval_defs)
  have rep: "republish ext_send_fails rcv_seenA None (filtered rcv0 ann_A) =
       Returned (Some (OtherError ''publish failed'')) rcv_seenA"
    by (simp add: eval_defs filtered_def)
  have pre: "outChan rcv0 = [] \<and> \<not> doneCh rcv0 \<and> (None :: ctx) = None"
    by (simp add: eval_defs)
  from handleAnnounce_republish_failure [OF chk rep] pre
  have "handleAnnounce ext_send_fails rcv0 None ann_A True =
          [Returned None
             ((logw LError ''Cannot republish announce message'' rcv_seenA)
                \<lparr>outChan := [filtered rcv0 ann_A]\<rparr>)]"
    by blast
  then have "handleAnnounce ext_send_fails rcv0 None ann_A True =
       [Returned None
          (rcv_seenA\<lparr>outChan := [ann_A],
                     logged := [(LError, ''Cannot republish announce message'')]\<rparr>)]"
    by (simp add: eval_defs filtered_def)
  with chk rep show ?thesis by simp
qed

section \<open>Address filtering\<close>

lemma FilterPublic_clean: "\<forall>a \<in> set (FilterPublic as). \<not> non_public a"
  by (simp add: FilterPublic_def)

lemma FilterPublic_classes:
  "\<forall>a \<in> set (FilterPublic as). \<forall>m ip.
     a = Some m \<and> first_ip m = Some ip \<longrightarrow>
     \<not> ip_loopback ip \<and> \<not> ip_link_local ip \<and> \<not> ip_private ip"
  by (auto simp: FilterPublic_def non_public_def)

lemma FilterPublic_nil: "FilterPublic as = filter (\<lambda>a. a = None \<or> \<not> non_public a) as"
proof -
  have "(\<lambda>a. \<not> non_public a) = (\<lambda>a. a = None \<or> \<not> non_public a)"
    by (auto simp: non_public_def)
  then show ?thesis
    by (simp add: FilterPublic_def)
qed

text \<open>An announcement that passes the admission check reaches the delivery step.\<close>

lemma handleAnnounce_admitted:
  assumes "\<not> peer_rejected r (PeerID amsg)" and "\<not> announceMutex r" and "\<not> closed r"
      and "Cid_String (Cid amsg) \<notin> set (lru_keys (announceCache r))"
      and "rs \<longrightarrow> sender r \<noteq> None"
  shows "\<exists>rr. handleAnnounce x r c amsg rs = select_send rr c (filtered r amsg)
              \<and> outChan rr = outChan r \<and> doneCh rr = doneCh r"
proof (cases rs)
  case False
  with assms show ?thesis
    by (intro exI [of _ "cached r amsg"]) (simp add: handleAnnounce_branches cached_frame)
next
  case True
  with assms obtain s where "sender r = Some s"
    by auto
  with True assms show ?thesis
    by (intro exI [of _ "republished x (cached r amsg) c (filtered r amsg) s"])
       (simp add: handleAnnounce_branches cached_frame republished_frame)
qed

text \<open>C5. On a receiver with \<open>filterIPs\<close> set, every outcome of \<open>handleAnnounce\<close>
  either leaves the output channel as it was or appends the announcement with its
  addresses replaced by \<open>FilterPublic\<close> of the incoming list; that list is the incoming
  one without the addresses whose first IP component is loopback, link-local or
  private, nil entries kept; so if no announcement in the channel had a non-public
  address before, none has after, and \<open>Next\<close> hands out only announcements of the
  channel. An announcement whose filtered list is empty is still delivered when it
  passes the admission check and the channel has room.\<close>

theorem handleAnnounce_filterIPs:
  assumes fi: "filterIPs r"
      and out: "out \<in> set (handleAnnounce x r c amsg rs)"
  shows "(outChan (receiver_of out) = outChan r
          \<or> outChan (receiver_of out)
              = outChan r @ [amsg\<lparr>Addrs := FilterPublic (Addrs amsg)\<rparr>])
       \<and> (\<forall>a \<in> set (FilterPublic (Addrs amsg)). \<not> non_public a)
       \<and> (\<forall>a \<in> set (FilterPublic (Addrs amsg)). \<forall>m ip.
            a = Some m \<and> first_ip m = Some ip \<longrightarrow>
            \<not> ip_loopback ip \<and> \<not> ip_link_local ip \<and> \<not> ip_private ip)
       \<and> FilterPublic (Addrs amsg) = filter (\<lambda>a. a = None \<or> \<not> non_public a) (Addrs amsg)
       \<and> ((\<forall>d \<in> set (outChan r). \<forall>a \<in> set (Addrs d). \<not> non_public a) \<longrightarrow>
            (\<forall>d \<in> set (outChan (receiver_of out)). \<forall>a \<in> set (Addrs d). \<not> non_public a))
       \<and> (\<forall>d r' c'. Returned (Inr d) r' \<in> set (Next (receiver_of out) c') \<longrightarrow>
            d \<in> set (outChan (receiver_of out)))
       \<and> (FilterPublic (Addrs amsg) = [] \<and> \<not> peer_rejected r (PeerID amsg)
            \<and> \<not> announceMutex r \<and> \<not> closed r
            \<and> Cid_String (Cid amsg) \<notin> set (lru_keys (announceCache r))
            \<and> outChan r = [] \<and> (rs \<longrightarrow> sender r \<noteq> None) \<longrightarrow>
            (\<exists>r'. Returned None r' \<in> set (handleAnnounce x r c amsg rs)
                  \<and> outChan r' = [amsg\<lparr>Addrs := []\<rparr>]))"
proof -
  have shape: "outChan (receiver_of out) = outChan r
          \<or> outChan (receiver_of out)
              = outChan r @ [amsg\<lparr>Addrs := FilterPublic (Addrs amsg)\<rparr>]"
  proof (cases "outChan (receiver_of out) = outChan r")
    case True
    then show ?thesis by simp
  next
    case False
    from handleAnnounce_delivered [OF out False] fi show ?thesis
      by (simp add: filtered_def)
  qed
  have inv: "(\<forall>d \<in> set (outChan r). \<forall>a \<in> set (Addrs d). \<not> non_public a) \<longrightarrow>
            (\<forall>d \<in> set (outChan (receiver_of out)). \<forall>a \<in> set (Addrs d). \<not> non_public a)"
    using shape FilterPublic_clean [of "Addrs amsg"] by auto
  have nxt: "\<forall>d r' c'. Returned (Inr d) r' \<in> set (Next (receiver_of out) c') \<longrightarrow>
            d \<in> set (outChan (receiver_of out))"
  proof (intro allI impI)
    fix d r' c'
    assume "Returned (Inr d) r' \<in> set (Next (receiver_of out) c')"
    from Next_takes [OF this]
    have "outChan (receiver_of out) = d # tl (outChan (receiver_of out))"
      by simp
    then show "d \<in> set (outChan (receiver_of out))"
      by (metis list.set_intros(1))
  qed
  have empty: "FilterPublic (Addrs amsg) = [] \<and> \<not> peer_rejected r (PeerID amsg)
            \<and> \<not> announceMutex r \<and> \<not> closed r
            \<and> Cid_String (Cid amsg) \<notin> set (lru_keys (announceCache r))
            \<and> outChan r = [] \<and> (rs \<longrightarrow> sender r \<noteq> None) \<longrightarrow>
            (\<exists>r'. Returned None r' \<in> set (handleAnnounce x r c amsg rs)
                  \<and> outChan r' = [amsg\<lparr>Addrs := []\<rparr>])"
  proof
    assume a: "FilterPublic (Addrs amsg) = [] \<and> \<not> peer_rejected r (PeerID amsg)
            \<and> \<not> announceMutex r \<and> \<not> closed r
            \<and> Cid_String (Cid amsg) \<notin> set (lru_keys (announceCache r))
            \<and> outChan r = [] \<and> (rs \<longrightarrow> sender r \<noteq> None)"
    then obtain rr where
      h: "handleAnnounce x r c amsg rs = select_send rr c (filtered r amsg)"
      and o: "outChan rr = []"
      using handleAnnounce_admitted [of r amsg rs x c] by auto
    have f: "filtered r amsg = amsg\<lparr>Addrs := []\<rparr>"
      using fi a by (simp add: filtered_def)
    from select_send_room [OF o, of "filtered r amsg" c] h f
    show "\<exists>r'. Returned None r' \<in> set (handleAnnounce x r c amsg rs)
                  \<and> outChan r' = [amsg\<lparr>Addrs := []\<rparr>]"
      by (intro exI [of _ "rr\<lparr>outChan := [amsg\<lparr>Addrs := []\<rparr>]\<rparr>"]) simp
  qed
  from shape FilterPublic_clean [of "Addrs amsg"] FilterPublic_classes [of "Addrs amsg"]
    FilterPublic_nil [of "Addrs amsg"] inv nxt empty
  show ?thesis by blast
qed

theorem handleAnnounce_filterIPs_witness:
  "filterIPs rcv_filter
   \<and> Returned None rcv_filter_D \<in> set (handleAnnounce ext_ok rcv_filter None ann_D False)
   \<and> non_public addr_loop
   \<and> FilterPublic (Addrs ann_D) = [addr_8888]
   \<and> outChan (receiver_of (Returned None rcv_filter_D :: error option outcome))
       = outChan rcv_filter @ [ann_D\<lparr>Addrs := FilterPublic (Addrs ann_D)\<rparr>]
   \<and> \<not> non_public addr_8888
   \<and> (\<exists>r'. Returned None r'
              \<in> set (handleAnnounce ext_ok rcv_filter None (ann_D\<lparr>Addrs := [addr_loop]\<rparr>) False)
            \<and> outChan r' = [ann_D\<lparr>Addrs := []\<rparr>])"
proof -
  have fi: "filterIPs rcv_filter"
    by (simp add: rcv_filter_def)
  have out: "Returned None rcv_filter_D
               \<in> set (handleAnnounce ext_ok rcv_filter None ann_D False)"
    by (simp add: eval_defs rcv_filter_def rcv_filter_D_def ann_D_def)
  have lp: "non_public addr_loop"
    by (simp add: eval_defs)
  have fp: "FilterPublic (Addrs ann_D) = [addr_8888]"
    by (simp add: eval_defs ann_D_def)
  have sh: "outChan (receiver_of (Returned None rcv_filter_D :: error option outcome))
       = outChan rcv_filter @ [ann_D\<lparr>Addrs := FilterPublic (Addrs ann_D)\<rparr>]"
    by (simp add: fp) (simp add: eval_defs rcv_filter_def rcv_filter_D_def)
  from handleAnnounce_filterIPs [OF fi out] fp
  have pub: "\<not> non_public addr_8888"
    by simp
  let ?e = "ann_D\<lparr>Addrs := [addr_loop]\<rparr>"
  have oute: "Returned None
                (rcv_filter\<lparr>announceCache :=
                               \<lparr>lru_cap = announceCacheSize, lru_keys = [''D'']\<rparr>,
                            outChan := [ann_D\<lparr>Addrs := []\<rparr>]\<rparr>)
               \<in> set (handleAnnounce ext_ok rcv_filter None ?e False)"
    by (simp add: eval_defs rcv_filter_def ann_D_def)
  have pre: "FilterPublic (Addrs ?e) = [] \<and> \<not> peer_rejected rcv_filter (PeerID ?e)
            \<and> \<not> announceMutex rcv_filter \<and> \<not> closed rcv_filter
            \<and> Cid_String (Cid ?e) \<notin> set (lru_keys (announceCache rcv_filter))
            \<and> outChan rcv_filter = [] \<and> (False \<longrightarrow> sender rcv_filter \<noteq> None)"
    by (simp add: eval_defs rcv_filter_def ann_D_def)
  from handleAnnounce_filterIPs [OF fi oute] pre
  have "\<exists>r'. Returned None r' \<in> set (handleAnnounce ext_ok rcv_filter None ?e False)
            \<and> outChan r' = [?e\<lparr>Addrs := []\<rparr>]"
    by blast
  then have em: "\<exists>r'. Returned None r'
              \<in> set (handleAnnounce ext_ok rcv_filter None ?e False)
            \<and> outChan r' = [ann_D\<lparr>Addrs := []\<rparr>]"
    by simp
  from fi out lp fp sh pub em show ?thesis
    by blast
qed

section \<open>The watcher and relayed announcements\<close>

text \<open>C1, as the code has it. The watcher compares the receiver's host id with the
  peer id decoded from the message's \<open>From\<close> field, not with \<open>OrigPeer\<close>. A message
  whose \<open>From\<close> decodes to the receiver's own host id and whose body decodes to a
  message with a non-empty \<open>OrigPeer\<close> is dropped whatever \<open>OrigPeer\<close> names: the
  iteration continues with the receiver unchanged but for one log line, so
  \<open>handleAnnounce\<close> is not called and nothing reaches the output channel.\<close>

theorem watch_drops_relay_from_self:
  assumes "topicSub r = Some sub"
      and "IDFromBytes x (From msg) = Inr (hostID r)"
      and "UnmarshalCBOR x (Data msg) = Inr m"
      and "OrigPeer m \<noteq> ''''"
  shows "\<exists>l s. watch_iter x r c (ReadMsg msg) = [Continue (logw l s r)]
              \<and> watch x r c (ReadMsg msg # rest) = watch x (logw l s r) c rest
              \<and> outChan (logw l s r) = outChan r
              \<and> announceCache (logw l s r) = announceCache r"
proof (cases "msg_Addrs m \<noteq> [] \<and> isl (GetAddrs x (msg_Addrs m))")
  case True
  then obtain e where "GetAddrs x (msg_Addrs m) = Inl e"
    by (cases "GetAddrs x (msg_Addrs m)") auto
  with True assms
  have "watch_iter x r c (ReadMsg msg) =
          [Continue (logw LError ''Could not decode pubsub message'' r)]"
    by (simp add: watch_iter_def)
  then show ?thesis
    by (intro exI [of _ LError] exI [of _ "''Could not decode pubsub message''"])
       (simp add: logw_frame)
next
  case False
  then have "msg_Addrs m = [] \<or> (\<exists>as. GetAddrs x (msg_Addrs m) = Inr as)"
    by (cases "GetAddrs x (msg_Addrs m)") auto
  with assms
  have "watch_iter x r c (ReadMsg msg) =
          [Continue (logw LDebug ''Ignored rebuplished announce from self'' r)]"
    by (auto simp: watch_iter_def)
  then show ?thesis
    by (intro exI [of _ LDebug] exI [of _ "''Ignored rebuplished announce from self''"])
       (simp add: logw_frame)
qed

theorem watch_drops_relay_from_self_witness:
  "topicSub rcv0 = Some \<lparr>sub_topic = ''t'', sub_cancelled = False\<rparr>
   \<and> IDFromBytes ext_ok (From \<lparr>From = ''H'', Data = ''relay of B''\<rparr>) = Inr (hostID rcv0)
   \<and> UnmarshalCBOR ext_ok (Data \<lparr>From = ''H'', Data = ''relay of B''\<rparr>)
       = Inr \<lparr>msg_Cid = ''B'', msg_Addrs = [], OrigPeer = ''H''\<rparr>
   \<and> OrigPeer \<lparr>msg_Cid = ''B'', msg_Addrs = [], OrigPeer = ''H''\<rparr> \<noteq> ''''
   \<and> (\<exists>l s. watch_iter ext_ok rcv0 None (ReadMsg \<lparr>From = ''H'', Data = ''relay of B''\<rparr>)
              = [Continue (logw l s rcv0)])
   \<and> watch ext_ok rcv0 None [ReadMsg \<lparr>From = ''H'', Data = ''relay of B''\<rparr>]
       = [Blocked (logw LDebug ''Ignored rebuplished announce from self'' rcv0)]"
proof -
  let ?msg = "\<lparr>From = ''H'', Data = ''relay of B''\<rparr>"
  let ?m = "\<lparr>msg_Cid = ''B'', msg_Addrs = [], OrigPeer = ''H''\<rparr>"
  have h1: "topicSub rcv0 = Some \<lparr>sub_topic = ''t'', sub_cancelled = False\<rparr>"
    by (simp add: rcv0_def)
  have h2: "IDFromBytes ext_ok (From ?msg) = Inr (hostID rcv0)"
    by (simp add: ext_ok_def rcv0_def)
  have h3: "UnmarshalCBOR ext_ok (Data ?msg) = Inr ?m"
    by (simp add: ext_ok_def)
  have h4: "OrigPeer ?m \<noteq> ''''"
    by simp
  from watch_drops_relay_from_self [OF h1 h2 h3 h4, of None "[]"]
  have e: "\<exists>l s. watch_iter ext_ok rcv0 None (ReadMsg ?msg) = [Continue (logw l s rcv0)]"
    by blast
  have w: "watch ext_ok rcv0 None [ReadMsg ?msg]
       = [Blocked (logw LDebug ''Ignored rebuplished announce from self'' rcv0)]"
    by (simp add: eval_defs)
  from h1 h2 h3 h4 e w show ?thesis
    by blast
qed

text \<open>C1 as stated fails: a relay whose \<open>OrigPeer\<close> names the receiver's own host id
  \<open>H\<close> but that was forwarded by another peer \<open>R\<close> is not dropped. The watcher hands it
  to \<open>handleAnnounce\<close> with \<open>H\<close> as its peer, it enters the output channel, and \<open>Next\<close>
  returns it.\<close>

theorem watch_OrigPeer_self_counterexample:
  "UnmarshalCBOR ext_ok ''relay of B'' = Inr \<lparr>msg_Cid = ''B'', msg_Addrs = [], OrigPeer = ''H''\<rparr>
   \<and> peer_Decode ext_ok ''H'' = Inr (hostID rcv0)
   \<and> IDFromBytes ext_ok ''R'' = Inr ''R''
   \<and> watch_iter ext_ok rcv0 None (ReadMsg \<lparr>From = ''R'', Data = ''relay of B''\<rparr>)
       = [Continue rcv_relayed]
   \<and> watch ext_ok rcv0 None [ReadMsg \<lparr>From = ''R'', Data = ''relay of B''\<rparr>]
       = [Blocked rcv_relayed]
   \<and> PeerID (hd (outChan rcv_relayed)) = hostID rcv0
   \<and> Next rcv_relayed None
       = [Returned (Inr \<lparr>Cid = ''B'', PeerID = ''H'', Addrs = []\<rparr>) (rcv_relayed\<lparr>outChan := []\<rparr>)]"
  by (simp add: eval_defs rcv_relayed_def)

section \<open>Closing twice\<close>

text \<open>A \<open>Close\<close> on a receiver that is already closed returns nil with the mutex
  held.\<close>

lemma Close_when_closed:
  "closed r \<Longrightarrow> \<not> announceMutex r \<Longrightarrow> Close x r = Returned None (r\<lparr>announceMutex := True\<rparr>)"
  by (simp add: Close_def)

lemma held_mutex_blocks:
  "announceMutex r \<Longrightarrow> Close x r = Blocked r"
  "announceMutex r \<Longrightarrow> UncacheCid r c = Blocked r"
  "announceMutex r \<Longrightarrow> \<not> peer_rejected r (PeerID amsg) \<Longrightarrow>
     handleAnnounce x r cx amsg rs = [Blocked r]"
  by (simp_all add: Close_def UncacheCid_def handleAnnounce_branches)

text \<open>C2 on the code. The first \<open>Close\<close> of the open receiver \<open>rcv_seenA\<close> completes and
  returns nil, leaving \<open>rcv_closed\<close> with the mutex free. The second \<open>Close\<close> returns
  nil, but the receiver it leaves differs from \<open>rcv_closed\<close>: the mutex is held. On
  that receiver a third \<open>Close\<close>, \<open>UncacheCid\<close> and \<open>Direct\<close> do not return.\<close>

theorem Close_twice_holds_mutex:
  "Close ext_ok rcv_seenA = Returned None rcv_closed
   \<and> \<not> announceMutex rcv_closed
   \<and> Close ext_ok rcv_closed = Returned None (rcv_closed\<lparr>announceMutex := True\<rparr>)
   \<and> announceMutex (rcv_closed\<lparr>announceMutex := True\<rparr>)
   \<and> Close ext_ok (rcv_closed\<lparr>announceMutex := True\<rparr>)
       = Blocked (rcv_closed\<lparr>announceMutex := True\<rparr>)
   \<and> UncacheCid (rcv_closed\<lparr>announceMutex := True\<rparr>) ''A''
       = Blocked (rcv_closed\<lparr>announceMutex := True\<rparr>)
   \<and> Direct ext_ok (rcv_closed\<lparr>announceMutex := True\<rparr>) None ''A'' ''P1'' []
       = [Blocked (logw LInfo ''Handling direct announce''
                     (rcv_closed\<lparr>announceMutex := True\<rparr>))]"
  by (simp add: eval_defs)

section \<open>Construction without a topic, and its failure paths\<close>

text \<open>C8. With a host, no pre-supplied topic and the empty topic name, \<open>NewReceiver\<close>
  succeeds, builds a receiver without topic, subscription or sender, and starts the
  watcher; the watcher's read of \<open>topicSub\<close> then dereferences nil, whatever the
  subscription would have delivered: every run of \<open>watch\<close> on that receiver panics at
  its first read.\<close>

theorem NewReceiver_without_topic_watch_panics:
  assumes "opt_topic opts = None"
  shows "\<exists>r. NewReceiver x (Some h) '''' (Inr opts) = ([StartedWatch], Inr r)
            \<and> topic r = None \<and> topicSub r = None \<and> sender r = None \<and> \<not> resend r
            \<and> watch_iter x r c res = [Stuck (Panicked r)]
            \<and> watch x r c reads = [Panicked r]"
proof -
  define r where
    "r = \<lparr>allowPeer = opt_allowPeer opts, filterIPs = opt_filterIPs opts, resend = False,
          hostID = h, announceCache = newStringLRU announceCacheSize,
          announceMutex = False, closed = False, cancelWatch = Some False,
          watchDone = Some False, doneCh = False, cancelPubsub = None, sender = None,
          topic = None, topicSub = None, outChan = [], logged = []\<rparr>"
  have n: "NewReceiver x (Some h) '''' (Inr opts) = ([StartedWatch], Inr r)"
    using assms
    by (simp add: NewReceiver_def NewReceiver_topic_def NewReceiver_build_def r_def)
  have f: "topic r = None" "topicSub r = None" "sender r = None" "\<not> resend r"
    by (simp_all add: r_def)
  have it: "\<And>res. watch_iter x r c res = [Stuck (Panicked r)]"
    by (simp add: watch_iter_def f)
  have w: "watch x r c reads = [Panicked r]"
    by (cases reads) (simp_all add: it f)
  from n f it w show ?thesis
    by blast
qed

theorem NewReceiver_without_topic_watch_panics_witness:
  "opt_topic cfg0 = None
   \<and> (\<exists>r. NewReceiver ext_ok (Some ''H'') '''' (Inr cfg0) = ([StartedWatch], Inr r)
          \<and> topicSub r = None
          \<and> watch ext_ok r None [ReadMsg \<lparr>From = ''R'', Data = ''first hop C''\<rparr>]
              = [Panicked r])"
proof -
  have h: "opt_topic cfg0 = None"
    by (simp add: cfg0_def)
  from NewReceiver_without_topic_watch_panics
         [OF h, of ext_ok "''H''" None _ "[ReadMsg \<lparr>From = ''R'', Data = ''first hop C''\<rparr>]"]
    h
  show ?thesis
    by blast
qed

text \<open>C9. \<open>NewReceiver\<close> with a host, no pre-supplied topic and a topic name creates
  and joins the topic. If the subscription then succeeds and the sender cannot be
  built, the sender's error is returned and the topic-scope cancellation has not been
  run; if the subscription fails, its error is returned after the cancellation has
  been run.\<close>

theorem NewReceiver_sender_failure_keeps_topic:
  assumes "opt_topic opts = None"
      and "topicName \<noteq> ''''"
      and "MakeTopic x h topicName = Inr t"
  shows "(Subscribe x t = Inr sub \<and> sender_New x t = Inl err \<longrightarrow>
            NewReceiver x (Some h) topicName (Inr opts) = ([JoinedTopic t], Inl err))
       \<and> (Subscribe x t = Inl err \<longrightarrow>
            NewReceiver x (Some h) topicName (Inr opts)
              = ([JoinedTopic t, CancelledPubsub], Inl err))"
  using assms by (auto simp: NewReceiver_def NewReceiver_topic_def)

theorem NewReceiver_sender_failure_keeps_topic_witness:
  "opt_topic cfg0 = None \<and> ''t'' \<noteq> ''''
   \<and> MakeTopic ext_no_sender ''H'' ''t'' = Inr \<lparr>topic_name = ''t'', topic_closed = False\<rparr>
   \<and> Subscribe ext_no_sender \<lparr>topic_name = ''t'', topic_closed = False\<rparr>
       = Inr \<lparr>sub_topic = ''t'', sub_cancelled = False\<rparr>
   \<and> sender_New ext_no_sender \<lparr>topic_name = ''t'', topic_closed = False\<rparr>
       = Inl (OtherError ''no sender'')
   \<and> NewReceiver ext_no_sender (Some ''H'') ''t'' (Inr cfg0)
       = ([JoinedTopic \<lparr>topic_name = ''t'', topic_closed = False\<rparr>],
          Inl (OtherError ''no sender''))
   \<and> MakeTopic ext_no_sub ''H'' ''t'' = Inr \<lparr>topic_name = ''t'', topic_closed = False\<rparr>
   \<and> Subscribe ext_no_sub \<lparr>topic_name = ''t'', topic_closed = False\<rparr>
       = Inl (OtherError ''no subscription'')
   \<and> NewReceiver ext_no_sub (Some ''H'') ''t'' (Inr cfg0)
       = ([JoinedTopic \<lparr>topic_name = ''t'', topic_closed = False\<rparr>, CancelledPubsub],
          Inl (OtherError ''no subscription''))"
proof -
  let ?t = "\<lparr>topic_name = ''t'', topic_closed = False\<rparr>"
  have h1: "opt_topic cfg0 = None"
    by (simp add: cfg0_def)
  have h2: "''t'' \<noteq> ''''"
    by simp
  have m1: "MakeTopic ext_no_sender ''H'' ''t'' = Inr ?t"
    by (simp add: ext_no_sender_def ext_ok_def)
  have s1: "Subscribe ext_no_sender ?t = Inr \<lparr>sub_topic = ''t'', sub_cancelled = False\<rparr>"
    by (simp add: ext_no_sender_def ext_ok_def)
  have n1: "sender_New ext_no_sender ?t = Inl (OtherError ''no sender'')"
    by (simp add: ext_no_sender_def ext_ok_def)
  have m2: "MakeTopic ext_no_sub ''H'' ''t'' = Inr ?t"
    by (simp add: ext_no_sub_def ext_ok_def)
  have s2: "Subscribe ext_no_sub ?t = Inl (OtherError ''no subscription'')"
    by (simp add: ext_no_sub_def ext_ok_def)
  from NewReceiver_sender_failure_keeps_topic [OF h1 h2 m1] s1 n1
  have r1: "NewReceiver ext_no_sender (Some ''H'') ''t'' (Inr cfg0)
       = ([JoinedTopic ?t], Inl (OtherError ''no sender''))"
    by blast
  from NewReceiver_sender_failure_keeps_topic [OF h1 h2 m2] s2
  have r2: "NewReceiver ext_no_sub (Some ''H'') ''t'' (Inr cfg0)
       = ([JoinedTopic ?t, CancelledPubsub], Inl (OtherError ''no subscription''))"
    by blast
  from h1 h2 m1 s1 n1 r1 m2 s2 r2 show ?thesis
    by blast
qed

end
